theory Spec2Isabelle
  imports Complex_Main "HOL-Library.Multiset" "HOL-Library.Sublist"
    "HOL-Library.Char_ord" "HOL-Library.List_Lexorder" "HOL-Library.Product_Lexorder"
begin

section \<open>Python values, errors and the built-ins the components use\<close>

text \<open>
  The output components of \<^verbatim>\<open>gradio/outputs.py\<close> receive whatever the wrapped function
  returned. The universe below holds the shapes the components test for with
  \<^verbatim>\<open>isinstance\<close>: strings, numbers, lists, tuples, dictionaries (as association lists in
  insertion order, which is the iteration order of a Python dictionary), numpy arrays
  (given by the value their \<^verbatim>\<open>tolist()\<close> returns), PIL images (given by the array
  \<^verbatim>\<open>np.array\<close> makes of them), pandas frames (column labels and row-major values), pandas series
  (their values) and modules. A finite float is given by the rational number it denotes
  (only the order and the identity of floats matter below); the floats that are not
  finite, \<^verbatim>\<open>nan\<close>, \<^verbatim>\<open>inf\<close> and \<^verbatim>\<open>-inf\<close>, and the complex numbers are values
  of their own. A character of a string is a code point below 256.
\<close>

datatype pyval =
    PNone
  | PBool bool
  | PInt int
  | PFloat rat
  | PNaN
  | PInf bool
  | PComplex rat rat
  | PStr string
  | PList "pyval list"
  | PTuple "pyval list"
  | PDict "(pyval \<times> pyval) list"
  | PNdarray pyval
  | PPilImage pyval
  | PDataFrame "pyval list" "pyval list list"
  | PSeries "pyval list"
  | PModule string

datatype error =
    ValueError string
  | IndexError
  | KeyError
  | TypeError
  | AttributeError
  | UnboundLocalError string
  | FileNotFoundError string
  | ExternalError string

fun isinstance_str :: "pyval \<Rightarrow> bool" where
  "isinstance_str (PStr s) = True"
| "isinstance_str v = False"

text \<open>
  \<^verbatim>\<open>numbers.Number\<close> has \<^verbatim>\<open>int\<close>, \<^verbatim>\<open>bool\<close> (a subclass of \<^verbatim>\<open>int\<close>),
  \<^verbatim>\<open>float\<close> with its values that are not finite, and \<^verbatim>\<open>complex\<close>.
\<close>

fun isinstance_Number :: "pyval \<Rightarrow> bool" where
  "isinstance_Number (PBool b) = True"
| "isinstance_Number (PInt i) = True"
| "isinstance_Number (PFloat r) = True"
| "isinstance_Number PNaN = True"
| "isinstance_Number (PInf positive) = True"
| "isinstance_Number (PComplex re im) = True"
| "isinstance_Number v = False"

fun isinstance_dict :: "pyval \<Rightarrow> bool" where
  "isinstance_dict (PDict d) = True"
| "isinstance_dict v = False"

fun isinstance_list :: "pyval \<Rightarrow> bool" where
  "isinstance_list (PList xs) = True"
| "isinstance_list v = False"

fun isinstance_tuple :: "pyval \<Rightarrow> bool" where
  "isinstance_tuple (PTuple xs) = True"
| "isinstance_tuple v = False"

fun isinstance_ndarray :: "pyval \<Rightarrow> bool" where
  "isinstance_ndarray (PNdarray a) = True"
| "isinstance_ndarray v = False"

fun isinstance_PIL_Image :: "pyval \<Rightarrow> bool" where
  "isinstance_PIL_Image (PPilImage a) = True"
| "isinstance_PIL_Image v = False"

fun isinstance_DataFrame :: "pyval \<Rightarrow> bool" where
  "isinstance_DataFrame (PDataFrame cols rows) = True"
| "isinstance_DataFrame v = False"

fun isinstance_ModuleType :: "pyval \<Rightarrow> bool" where
  "isinstance_ModuleType (PModule n) = True"
| "isinstance_ModuleType v = False"

subsection \<open>\<^verbatim>\<open>str(y)\<close>\<close>

fun digit_char :: "nat \<Rightarrow> char" where
  "digit_char n = char_of (48 + n mod 10)"

fun dec_nat :: "nat \<Rightarrow> string" where
  "dec_nat n = (if n < 10 then [digit_char n] else dec_nat (n div 10) @ [digit_char n])"

declare dec_nat.simps [simp del]

definition dec_int :: "int \<Rightarrow> string" where
  "dec_int i = (if i < 0 then CHR ''-'' # dec_nat (nat (- i)) else dec_nat (nat i))"

text \<open>
  \<^verbatim>\<open>str\<close> of a string is the string, of an integer its decimal digits, of a boolean and
  of \<^verbatim>\<open>None\<close> their names. The text Python prints for a float or for a container is
  not computed here: \<open>repr\<close> stands for it.
\<close>

fun py_str :: "(pyval \<Rightarrow> string) \<Rightarrow> pyval \<Rightarrow> string" where
  "py_str repr (PStr s) = s"
| "py_str repr (PInt i) = dec_int i"
| "py_str repr (PBool b) = (if b then ''True'' else ''False'')"
| "py_str repr PNone = ''None''"
| "py_str repr v = repr v"

subsection \<open>\<^verbatim>\<open>y.items()\<close>, \<^verbatim>\<open>sorted(..., key=operator.itemgetter(1), reverse=True)\<close>, slices\<close>

text \<open>
  Two things the interpreter does are computed here only on part of their inputs, and are
  parameters on the rest. \<open>items_of_other\<close> is \<^verbatim>\<open>y.items()\<close> for a \<open>y\<close> that is not a
  dictionary: the attribute lookup fails for most objects and succeeds for some (a pandas
  frame or series). \<open>sorted_other\<close> is the built-in \<^verbatim>\<open>sorted\<close> on two or more entries
  whose values are neither all booleans, integers and floats other than \<^verbatim>\<open>nan\<close>, nor
  all strings: its
  outcome there (an order, an unsorted list when a \<^verbatim>\<open>nan\<close> is compared, or the
  \<^verbatim>\<open>TypeError\<close> of values that cannot be compared) follows from the comparisons the
  sorting algorithm happens to make.
\<close>

record interpreter =
  items_of_other :: "pyval \<Rightarrow> error + (pyval \<times> pyval) list"
  sorted_other :: "(pyval \<times> pyval) list \<Rightarrow> error + (pyval \<times> pyval) list"

fun dict_items :: "interpreter \<Rightarrow> pyval \<Rightarrow> error + (pyval \<times> pyval) list" where
  "dict_items py (PDict d) = Inr d"
| "dict_items py v = items_of_other py v"

text \<open>
  The numbers Python orders totally by value: booleans, integers and the floats other than
  \<^verbatim>\<open>nan\<close>. Their place in the order is given by \<open>score\<close>, a pair compared
  lexicographically: \<^verbatim>\<open>-inf\<close> is below and \<^verbatim>\<open>inf\<close> above every finite value, and
  \<^verbatim>\<open>True\<close> and \<^verbatim>\<open>False\<close> are the integers 1 and 0.
\<close>

fun ordered_number :: "pyval \<Rightarrow> bool" where
  "ordered_number (PBool b) = True"
| "ordered_number (PInt i) = True"
| "ordered_number (PFloat r) = True"
| "ordered_number (PInf positive) = True"
| "ordered_number v = False"

fun score :: "pyval \<Rightarrow> nat \<times> rat" where
  "score (PFloat r) = (1, r)"
| "score (PInt i) = (1, of_int i)"
| "score (PBool b) = (1, if b then 1 else 0)"
| "score (PInf positive) = (if positive then 2 else 0, 0)"
| "score v = (1, 0)"

fun str_value :: "pyval \<Rightarrow> string" where
  "str_value (PStr s) = s"
| "str_value v = []"

text \<open>
  \<^verbatim>\<open>sorted\<close> is stable, and with \<^verbatim>\<open>reverse=True\<close> it keeps the original order of
  entries with equal keys: CPython reverses the list, sorts it stably in ascending order
  and reverses the result. Booleans, integers and floats other than \<^verbatim>\<open>nan\<close> are
  compared by value, strings by their code points. A list of at most one entry is returned without any
  comparison. Every other list of entries is left to \<open>sorted_other\<close>.
\<close>

definition sorted_itemgetter1_reverse ::
  "interpreter \<Rightarrow> (pyval \<times> pyval) list \<Rightarrow> error + (pyval \<times> pyval) list" where
  "sorted_itemgetter1_reverse py items =
     (if length items \<le> 1 \<or> list_all (\<lambda>p. ordered_number (snd p)) items
      then Inr (rev (sort_key (\<lambda>p. score (snd p)) (rev items)))
      else if list_all (\<lambda>p. isinstance_str (snd p)) items
      then Inr (rev (sort_key (\<lambda>p. str_value (snd p)) (rev items)))
      else sorted_other py items)"

text \<open>\<^verbatim>\<open>xs[:n]\<close>: a negative \<open>n\<close> counts from the end.\<close>

definition slice_to :: "'a list \<Rightarrow> int \<Rightarrow> 'a list" where
  "slice_to xs n = (if n < 0 then take (nat (int (length xs) + n)) xs else take (nat n) xs)"

subsection \<open>\<^verbatim>\<open>len(y)\<close>, \<^verbatim>\<open>y[i]\<close>, \<^verbatim>\<open>y.tolist()\<close>\<close>

fun py_len :: "pyval \<Rightarrow> error + nat" where
  "py_len (PList xs) = Inr (length xs)"
| "py_len (PTuple xs) = Inr (length xs)"
| "py_len (PStr s) = Inr (length s)"
| "py_len (PDict d) = Inr (length d)"
| "py_len (PNdarray (PList xs)) = Inr (length xs)"
| "py_len (PDataFrame cols rows) = Inr (length rows)"
| "py_len (PSeries xs) = Inr (length xs)"
| "py_len v = Inl TypeError"

text \<open>A dictionary key equal to the integer \<open>i\<close>: \<^verbatim>\<open>0 == 0.0 == 0j == False\<close> in Python.\<close>

fun key_is :: "nat \<Rightarrow> pyval \<Rightarrow> bool" where
  "key_is i (PInt k) = (k = int i)"
| "key_is i (PFloat r) = (r = of_nat i)"
| "key_is i (PBool b) = ((if b then 1 else 0) = i)"
| "key_is i (PComplex re im) = (re = of_nat i \<and> im = 0)"
| "key_is i v = False"

fun nth_or_IndexError :: "'a list \<Rightarrow> nat \<Rightarrow> error + 'a" where
  "nth_or_IndexError [] i = Inl IndexError"
| "nth_or_IndexError (x # xs) 0 = Inr x"
| "nth_or_IndexError (x # xs) (Suc i) = nth_or_IndexError xs i"

fun getitem :: "pyval \<Rightarrow> nat \<Rightarrow> error + pyval" where
  "getitem (PList xs) i = nth_or_IndexError xs i"
| "getitem (PTuple xs) i = nth_or_IndexError xs i"
| "getitem (PStr s) i = map_sum id (\<lambda>c. PStr [c]) (nth_or_IndexError s i)"
| "getitem (PDict d) i =
     (case find (\<lambda>p. key_is i (fst p)) d of None \<Rightarrow> Inl KeyError | Some p \<Rightarrow> Inr (snd p))"
| "getitem (PNdarray (PList xs)) i = map_sum id PNdarray (nth_or_IndexError xs i)"
| "getitem (PNdarray a) i = Inl IndexError"
| "getitem (PSeries xs) i = nth_or_IndexError xs i"
| "getitem (PDataFrame cols rows) i =
     (if list_ex (key_is i) cols
      then Inr (PSeries (map (\<lambda>row. case nth_or_IndexError row (length (takeWhile (\<lambda>c. \<not> key_is i c) cols)) of
                                       Inl e \<Rightarrow> PNone | Inr v \<Rightarrow> v) rows))
      else Inl KeyError)"
| "getitem v i = Inl TypeError"

fun tolist :: "pyval \<Rightarrow> error + pyval" where
  "tolist (PNdarray a) = Inr a"
| "tolist (PSeries xs) = Inr (PList xs)"
| "tolist v = Inl AttributeError"

subsection \<open>The file system and the collaborators outside this module\<close>

text \<open>
  Files are a map from a path to the bytes stored there, next to the list of existing
  directories. The functions of \<^verbatim>\<open>processing_utils\<close>, \<^verbatim>\<open>np.array\<close>,
  \<^verbatim>\<open>scipy.io.wavfile.write\<close> and the \<^verbatim>\<open>save\<close> method of a PIL image are not defined in
  this module: they are parameters, each returning its result or the error it raises.
  Keyword arguments are passed as the list the call site writes.
\<close>

record filesystem =
  files :: "string \<rightharpoonup> string"
  dirs :: "string list"

record collaborators =
  encode_array_to_base64 :: "pyval \<Rightarrow> error + string"
  encode_file_to_base64 :: "filesystem \<Rightarrow> pyval \<Rightarrow> (string \<times> pyval) list \<Rightarrow> error + string"
  encode_plot_to_base64 :: "pyval \<Rightarrow> error + string"
  decode_base64_to_image :: "pyval \<Rightarrow> error + pyval"
  np_array :: "pyval \<Rightarrow> error + pyval"
  wavfile_write :: "pyval \<Rightarrow> pyval \<Rightarrow> error + string"
  image_save :: "pyval \<Rightarrow> string \<Rightarrow> error + string"

definition returning_str :: "error + string \<Rightarrow> error + pyval" where
  "returning_str r = map_sum id PStr r"

section \<open>Components\<close>

text \<open>
  Every component that takes a \<^verbatim>\<open>type\<close> argument stores it as \<^verbatim>\<open>self.type\<close>;
  \<^verbatim>\<open>Label\<close> adds \<^verbatim>\<open>num_top_classes\<close> and \<^verbatim>\<open>Dataframe\<close> adds \<^verbatim>\<open>headers\<close>.
\<close>

record typed_component =
  type :: string

record Label = typed_component +
  num_top_classes :: "int option"

record Dataframe = typed_component +
  headers :: "pyval option"

subsection \<open>Label\<close>

definition LABEL_KEY :: string where
  "LABEL_KEY = ''label''"

definition CONFIDENCE_KEY :: string where
  "CONFIDENCE_KEY = ''confidence''"

definition CONFIDENCES_KEY :: string where
  "CONFIDENCES_KEY = ''confidences''"

definition Label_error_message :: string where
  "Label_error_message =
     ''The `Label` output interface expects one of: a string label, or an int label, a '' @
     ''float label, or a dictionary whose keys are labels and values are confidences.''"

definition confidence_entry :: "pyval \<times> pyval \<Rightarrow> pyval" where
  "confidence_entry pred = PDict [(PStr LABEL_KEY, fst pred), (PStr CONFIDENCE_KEY, snd pred)]"

definition Label_postprocess ::
  "(pyval \<Rightarrow> string) \<Rightarrow> interpreter \<Rightarrow> Label \<Rightarrow> pyval \<Rightarrow> error + pyval" where
  "Label_postprocess repr py self y =
     (if type self = ''label'' \<or> (type self = ''auto'' \<and> (isinstance_str y \<or> isinstance_Number y)) then
        Inr (PDict [(PStr LABEL_KEY, PStr (py_str repr y))])
      else if type self = ''confidences'' \<or> (type self = ''auto'' \<and> isinstance_dict y) then
        (case dict_items py y of
           Inl e \<Rightarrow> Inl e
         | Inr items \<Rightarrow>
            (case sorted_itemgetter1_reverse py items of
               Inl e \<Rightarrow> Inl e
             | Inr sp \<Rightarrow>
                (let sorted_pred = (case num_top_classes self of None \<Rightarrow> sp | Some n \<Rightarrow> slice_to sp n)
                 in case sorted_pred of
                      [] \<Rightarrow> Inl IndexError
                    | best # rest \<Rightarrow>
                        Inr (PDict [(PStr LABEL_KEY, fst best),
                                    (PStr CONFIDENCES_KEY, PList (map confidence_entry sorted_pred))]))))
      else Inl (ValueError Label_error_message))"

subsection \<open>Textbox\<close>

definition Textbox_postprocess :: "(pyval \<Rightarrow> string) \<Rightarrow> typed_component \<Rightarrow> pyval \<Rightarrow> error + pyval" where
  "Textbox_postprocess repr self y =
     (if type self = ''str'' \<or> type self = ''auto'' then Inr y
      else if type self = ''number'' then Inr (PStr (py_str repr y))
      else Inl (ValueError (''Unknown type: '' @ type self @ ''. Please choose from: 'str', 'number'' @ [CHR 0x27])))"

subsection \<open>Image\<close>

text \<open>The constructor: the deprecated \<^verbatim>\<open>plot\<close> flag overrides \<^verbatim>\<open>type\<close>.\<close>

definition Image_init :: "string \<Rightarrow> bool \<Rightarrow> typed_component" where
  "Image_init ty plot = (if plot then \<lparr>type = ''plot''\<rparr> else \<lparr>type = ty\<rparr>)"

text \<open>
  Under "auto" the local variable \<^verbatim>\<open>dtype\<close> is assigned by the first \<^verbatim>\<open>isinstance\<close>
  test that holds; the chain has no final \<^verbatim>\<open>else\<close>, so when none holds \<^verbatim>\<open>dtype\<close>
  is unbound and reading it raises \<^verbatim>\<open>UnboundLocalError\<close>.
\<close>

definition Image_dtype :: "typed_component \<Rightarrow> pyval \<Rightarrow> string option" where
  "Image_dtype self y =
     (if type self = ''auto'' then
        (if isinstance_ndarray y then Some ''numpy''
         else if isinstance_PIL_Image y then Some ''pil''
         else if isinstance_str y then Some ''file''
         else if isinstance_ModuleType y then Some ''plot''
         else None)
      else Some (type self))"

definition Image_postprocess :: "collaborators \<Rightarrow> filesystem \<Rightarrow> typed_component \<Rightarrow> pyval \<Rightarrow> error + pyval" where
  "Image_postprocess env fs self y =
     (case Image_dtype self y of
        None \<Rightarrow> Inl (UnboundLocalError ''dtype'')
      | Some dtype \<Rightarrow>
          if dtype \<in> set [''numpy'', ''pil''] then
            (case (if dtype = ''pil'' then np_array env y else Inr y) of
               Inl e \<Rightarrow> Inl e
             | Inr a \<Rightarrow> returning_str (encode_array_to_base64 env a))
          else if dtype = ''file'' then returning_str (encode_file_to_base64 env fs y [])
          else if dtype = ''plot'' then returning_str (encode_plot_to_base64 env y)
          else Inl (ValueError (''Unknown type: '' @ dtype @
                 ''. Please choose from: 'numpy', 'pil', 'file', 'plot'.'')))"

subsection \<open>\<^verbatim>\<open>Image.rebuild\<close> and the time stamp\<close>

record datetime =
  year :: nat
  month :: nat
  day :: nat
  hour :: nat
  minute :: nat
  second :: nat
  microsecond :: nat

definition pad2 :: "nat \<Rightarrow> string" where
  "pad2 n = [digit_char (n div 10), digit_char n]"

definition pad4 :: "nat \<Rightarrow> string" where
  "pad4 n = [digit_char (n div 1000), digit_char (n div 100), digit_char (n div 10), digit_char n]"

text \<open>\<^verbatim>\<open>timestamp.strftime("%Y-%m-%d-%H-%M-%S")\<close>: the year in four digits, the rest in two.\<close>

definition strftime_Ymd_HMS :: "datetime \<Rightarrow> string" where
  "strftime_Ymd_HMS t =
     pad4 (year t) @ ''-'' @ pad2 (month t) @ ''-'' @ pad2 (day t) @ ''-'' @
     pad2 (hour t) @ ''-'' @ pad2 (minute t) @ ''-'' @ pad2 (second t)"

text \<open>
  \<open>now\<close> is what \<^verbatim>\<open>datetime.datetime.now()\<close> returns during the call. Saving fails when
  \<open>dir\<close> is not an existing directory; otherwise the bytes of the PNG encoding are stored
  at \<^verbatim>\<open>'{}/{}'.format(dir, filename)\<close>.
\<close>

definition Image_rebuild ::
  "collaborators \<Rightarrow> datetime \<Rightarrow> filesystem \<Rightarrow> string \<Rightarrow> pyval \<Rightarrow> (error + string) \<times> filesystem" where
  "Image_rebuild env now fs dir data =
     (case decode_base64_to_image env data of
        Inl e \<Rightarrow> (Inl e, fs)
      | Inr im \<Rightarrow>
          (let timestamp = now;
               filename = ''output_'' @ strftime_Ymd_HMS timestamp @ ''.png'';
               path = dir @ ''/'' @ filename
           in if dir \<in> set (dirs fs) then
                (case image_save env im ''PNG'' of
                   Inl e \<Rightarrow> (Inl e, fs)
                 | Inr bytes \<Rightarrow> (Inr filename, fs\<lparr>files := (files fs)(path \<mapsto> bytes)\<rparr>))
              else (Inl (FileNotFoundError path), fs)))"

subsection \<open>KeyValues\<close>

definition KeyValues_error_message :: string where
  "KeyValues_error_message =
     ''The `KeyValues` output interface expects an output that is a dictionary whose keys are '' @
     ''labels and values are corresponding values.''"

fun KeyValues_postprocess :: "pyval \<Rightarrow> error + pyval" where
  "KeyValues_postprocess (PDict d) = Inr (PList (map (\<lambda>(k, v). PTuple [k, v]) d))"
| "KeyValues_postprocess (PList xs) = Inr (PList xs)"
| "KeyValues_postprocess y = Inl (ValueError KeyValues_error_message)"

subsection \<open>Audio\<close>

text \<open>
  On the numpy path a \<^verbatim>\<open>NamedTemporaryFile\<close> is created under the name \<open>tmp\<close> the
  operating system picks, the WAV bytes are written to it, and the file is then encoded by
  name. The call returns its result together with the file system as it is when the last
  statement of the call has run, on a normal return as on a raise. The function has no
  \<^verbatim>\<open>with\<close> block, no \<^verbatim>\<open>try\<close> and no statement that closes or removes the file:
  whatever removes it later (the interpreter finalising the file object) is not part of
  the call. What a failed write leaves in the file is not modelled: the file is then as
  it was created, empty.
\<close>

definition Audio_encode :: "collaborators \<Rightarrow> filesystem \<Rightarrow> pyval \<Rightarrow> error + pyval" where
  "Audio_encode env fs f =
     returning_str (encode_file_to_base64 env fs f [(''type'', PStr ''audio''), (''ext'', PStr ''wav'')])"

definition Audio_postprocess ::
  "collaborators \<Rightarrow> string \<Rightarrow> filesystem \<Rightarrow> typed_component \<Rightarrow> pyval \<Rightarrow> (error + pyval) \<times> filesystem" where
  "Audio_postprocess env tmp fs self y =
     (if type self \<in> set [''numpy'', ''file'', ''auto''] then
        (if type self = ''numpy'' \<or> (type self = ''auto'' \<and> isinstance_tuple y) then
           (let fs1 = fs\<lparr>files := (files fs)(tmp \<mapsto> [])\<rparr> in
            case getitem y 0 of
              Inl e \<Rightarrow> (Inl e, fs1)
            | Inr rate \<Rightarrow>
               (case getitem y 1 of
                  Inl e \<Rightarrow> (Inl e, fs1)
                | Inr samples \<Rightarrow>
                   (case wavfile_write env rate samples of
                      Inl e \<Rightarrow> (Inl e, fs1)
                    | Inr bytes \<Rightarrow>
                        (let fs2 = fs1\<lparr>files := (files fs1)(tmp \<mapsto> bytes)\<rparr>
                         in (Audio_encode env fs2 (PStr tmp), fs2)))))
         else (Audio_encode env fs y, fs))
      else (Inl (ValueError (''Unknown type: '' @ type self @ ''. Please choose from: 'numpy', 'file'.'')), fs))"

subsection \<open>JSON\<close>

text \<open>
  \<^verbatim>\<open>json.dumps\<close> of a string (with the default \<^verbatim>\<open>ensure_ascii=True\<close>): the string
  between double quotes, with the quote and the backslash escaped by a backslash, the
  control characters backspace, form feed, newline, carriage return and tab written as
  \<^verbatim>\<open>\b \f \n \r \t\<close>, and every other character outside the printable ASCII range
  written as \<^verbatim>\<open>\u00xx\<close> in lower-case hexadecimal. A character of the model is a
  code point below 256.
\<close>

definition hex_digit :: "nat \<Rightarrow> char" where
  "hex_digit n = (if n mod 16 < 10 then char_of (48 + n mod 16) else char_of (87 + n mod 16))"

definition json_escape :: "char \<Rightarrow> string" where
  "json_escape c =
     (if c = CHR 0x22 then [CHR 0x5C, CHR 0x22]
      else if c = CHR 0x5C then [CHR 0x5C, CHR 0x5C]
      else if c = CHR 0x08 then [CHR 0x5C, CHR ''b'']
      else if c = CHR 0x0C then [CHR 0x5C, CHR ''f'']
      else if c = CHR 0x0A then [CHR 0x5C, CHR ''n'']
      else if c = CHR 0x0D then [CHR 0x5C, CHR ''r'']
      else if c = CHR 0x09 then [CHR 0x5C, CHR ''t'']
      else if (of_char c :: nat) < 32 \<or> 126 < (of_char c :: nat)
        then [CHR 0x5C, CHR ''u'', CHR ''0'', CHR ''0'', hex_digit (of_char c div 16), hex_digit (of_char c)]
      else [c])"

definition json_dumps_str :: "string \<Rightarrow> string" where
  "json_dumps_str s = CHR 0x22 # concat (map json_escape s) @ [CHR 0x22]"

fun JSON_postprocess :: "pyval \<Rightarrow> pyval" where
  "JSON_postprocess (PStr s) = PStr (json_dumps_str s)"
| "JSON_postprocess y = y"

subsection \<open>Dataframe\<close>

definition Dataframe_dtype :: "Dataframe \<Rightarrow> pyval \<Rightarrow> string option" where
  "Dataframe_dtype self y =
     (if type self = ''auto'' then
        (if isinstance_DataFrame y then Some ''pandas''
         else if isinstance_ndarray y then Some ''numpy''
         else if isinstance_list y then Some ''array''
         else None)
      else Some (type self))"

fun DataFrame_wire :: "pyval \<Rightarrow> error + pyval" where
  "DataFrame_wire (PDataFrame cols rows) =
     Inr (PDict [(PStr ''headers'', PList cols), (PStr ''data'', PList (map PList rows))])"
| "DataFrame_wire v = Inl AttributeError"

definition Dataframe_postprocess :: "Dataframe \<Rightarrow> pyval \<Rightarrow> error + pyval" where
  "Dataframe_postprocess self y =
     (case Dataframe_dtype self y of
        None \<Rightarrow> Inl (UnboundLocalError ''dtype'')
      | Some dtype \<Rightarrow>
          if dtype = ''pandas'' then DataFrame_wire y
          else if dtype \<in> set [''numpy'', ''array''] then
            (case (if dtype = ''numpy'' then tolist y else Inr y) of
               Inl e \<Rightarrow> Inl e
             | Inr y1 \<Rightarrow>
                (case py_len y1 of
                   Inl e \<Rightarrow> Inl e
                 | Inr n \<Rightarrow>
                    if n = 0 then Inr (PDict [(PStr ''data'', PList [y1])])
                    else (case getitem y1 0 of
                            Inl e \<Rightarrow> Inl e
                          | Inr first \<Rightarrow>
                              if \<not> isinstance_list first then Inr (PDict [(PStr ''data'', PList [y1])])
                              else Inr (PDict [(PStr ''data'', y1)]))))
          else Inl (ValueError (''Unknown type: '' @ type self @
                 ''. Please choose from: 'pandas', 'numpy', 'array'.'')))"

section \<open>Notions of the specification\<close>

text \<open>
  "Sorted descending by score with a stable sort", in the specification's words: \<open>ys\<close>
  is in descending order of score, and for every score the entries of \<open>ys\<close> with that
  score are the entries of \<open>m\<close> with that score, in the order they have in \<open>m\<close>.
\<close>

definition stable_sorted_desc :: "(pyval \<times> pyval) list \<Rightarrow> (pyval \<times> pyval) list \<Rightarrow> bool" where
  "stable_sorted_desc m ys \<longleftrightarrow>
     sorted_wrt (\<lambda>a b. score (snd b) \<le> score (snd a)) ys \<and>
     (\<forall>s. filter (\<lambda>p. score (snd p) = s) ys = filter (\<lambda>p. score (snd p) = s) m)"

text \<open>The scenario of the specification: \<^verbatim>\<open>{"cat": 0.2, "dog": 0.7, "bird": 0.1}\<close>.\<close>

definition three_animals :: "(pyval \<times> pyval) list" where
  "three_animals = [(PStr ''cat'', PFloat (2/10)), (PStr ''dog'', PFloat (7/10)), (PStr ''bird'', PFloat (1/10))]"

section \<open>Stand-ins for closed examples\<close>

text \<open>
  A closed example needs concrete collaborators and a concrete file system. The file
  encoder of the stand-in reads the named file, fails with \<^verbatim>\<open>FileNotFoundError\<close>
  when it does not exist and with \<^verbatim>\<open>TypeError\<close> when the path is not a string;
  a second stand-in has a file encoder that always raises. The stand-in for the
  interpreter is never reached on a dictionary of ordered scores. No theorem about all
  collaborators depends on them.
\<close>

definition example_env :: collaborators where
  "example_env =
     \<lparr>encode_array_to_base64 = (\<lambda>a. Inr ''data:image/png;base64,QQ==''),
      encode_file_to_base64 =
        (\<lambda>fs f kwargs. case f of
             PStr p \<Rightarrow> (case files fs p of
                          None \<Rightarrow> Inl (FileNotFoundError p)
                        | Some bytes \<Rightarrow> Inr (''base64 of '' @ bytes))
           | _ \<Rightarrow> Inl TypeError),
      encode_plot_to_base64 = (\<lambda>p. Inr ''data:image/png;base64,Qg==''),
      decode_base64_to_image = (\<lambda>d. case d of PStr s \<Rightarrow> Inr (PPilImage (PStr s)) | _ \<Rightarrow> Inl TypeError),
      np_array = (\<lambda>v. case v of PPilImage a \<Rightarrow> Inr (PNdarray a) | _ \<Rightarrow> Inr (PNdarray v)),
      wavfile_write = (\<lambda>rate samples. Inr ''RIFF''),
      image_save = (\<lambda>im fmt. Inr (''image in '' @ fmt))\<rparr>"

definition example_py :: interpreter where
  "example_py = \<lparr>items_of_other = (\<lambda>v. Inl AttributeError), sorted_other = (\<lambda>items. Inl TypeError)\<rparr>"


definition example_fs :: filesystem where
  "example_fs = \<lparr>files = [''a.wav'' \<mapsto> ''RIFFdata''], dirs = [''out'']\<rparr>"

section \<open>Reading a time stamp back\<close>

text \<open>
  The value of a string of decimal digits, and the times a clock returns: a four-digit
  year and the fields of a calendar date and a time of day.
\<close>

definition digit_value :: "char \<Rightarrow> nat option" where
  "digit_value c = (let n = (of_char c :: nat) in if 48 \<le> n \<and> n \<le> 57 then Some (n - 48) else None)"

fun decimal_value :: "nat \<Rightarrow> string \<Rightarrow> nat option" where
  "decimal_value acc [] = Some acc"
| "decimal_value acc (c # cs) =
     (case digit_value c of None \<Rightarrow> None | Some d \<Rightarrow> decimal_value (10 * acc + d) cs)"

definition clock_time :: "datetime \<Rightarrow> bool" where
  "clock_time t \<longleftrightarrow>
     1000 \<le> year t \<and> year t \<le> 9999 \<and> 1 \<le> month t \<and> month t \<le> 12 \<and>
     1 \<le> day t \<and> day t \<le> 31 \<and> hour t < 24 \<and> minute t < 60 \<and> second t < 60 \<and>
     microsecond t < 1000000"

definition example_now :: datetime where
  "example_now = \<lparr>year = 2021, month = 3, day = 4, hour = 5, minute = 6, second = 7, microsecond = 123456\<rparr>"

section \<open>Reading a JSON string literal\<close>

text \<open>
  A JSON string literal, read back: the text between the double quotes, where a backslash
  starts an escape (one of \<^verbatim>\<open>" \ / b f n r t\<close>, or \<^verbatim>\<open>u\<close> and four hexadecimal
  digits) and a bare double quote or control character is not allowed. It says what it
  means for a text to be the JSON string literal of a string.
\<close>

definition hex_value :: "char \<Rightarrow> nat option" where
  "hex_value c =
     (let n = (of_char c :: nat) in
      if 48 \<le> n \<and> n \<le> 57 then Some (n - 48)
      else if 97 \<le> n \<and> n \<le> 102 then Some (n - 87)
      else if 65 \<le> n \<and> n \<le> 70 then Some (n - 55)
      else None)"

definition simple_escape :: "char \<Rightarrow> char option" where
  "simple_escape d =
     (if d = CHR 0x22 then Some (CHR 0x22)
      else if d = CHR 0x5C then Some (CHR 0x5C)
      else if d = CHR ''/'' then Some (CHR ''/'')
      else if d = CHR ''b'' then Some (CHR 0x08)
      else if d = CHR ''f'' then Some (CHR 0x0C)
      else if d = CHR ''n'' then Some (CHR 0x0A)
      else if d = CHR ''r'' then Some (CHR 0x0D)
      else if d = CHR ''t'' then Some (CHR 0x09)
      else None)"

definition hex4_value :: "char \<Rightarrow> char \<Rightarrow> char \<Rightarrow> char \<Rightarrow> nat option" where
  "hex4_value h1 h2 h3 h4 =
     (case hex_value h1 of None \<Rightarrow> None | Some a \<Rightarrow>
      case hex_value h2 of None \<Rightarrow> None | Some b \<Rightarrow>
      case hex_value h3 of None \<Rightarrow> None | Some c \<Rightarrow>
      case hex_value h4 of None \<Rightarrow> None | Some d \<Rightarrow> Some (4096 * a + 256 * b + 16 * c + d))"

fun json_unescape :: "string \<Rightarrow> string option" where
  "json_unescape [] = Some []"
| "json_unescape (c # cs) =
     (if c = CHR 0x5C then
        (case cs of
           [] \<Rightarrow> None
         | d # ds \<Rightarrow>
            if d = CHR ''u'' then
              (case ds of
                 h1 # h2 # h3 # h4 # rest \<Rightarrow>
                   (case hex4_value h1 h2 h3 h4 of
                      None \<Rightarrow> None
                    | Some n \<Rightarrow> if n < 256 then map_option ((#) (char_of n)) (json_unescape rest) else None)
               | _ \<Rightarrow> None)
            else (case simple_escape d of
                    None \<Rightarrow> None
                  | Some ch \<Rightarrow> map_option ((#) ch) (json_unescape ds)))
      else if c = CHR 0x22 \<or> (of_char c :: nat) < 32 then None
      else map_option ((#) c) (json_unescape cs))"

definition json_loads_str :: "string \<Rightarrow> string option" where
  "json_loads_str s =
     (case s of
        [] \<Rightarrow> None
      | q # rest \<Rightarrow>
          if q = CHR 0x22 \<and> rest \<noteq> [] \<and> last rest = CHR 0x22 then json_unescape (butlast rest)
          else None)"

definition printable_ascii :: "char \<Rightarrow> bool" where
  "printable_ascii c \<longleftrightarrow> 32 \<le> (of_char c :: nat) \<and> (of_char c :: nat) \<le> 126"

section \<open>Verified properties\<close>

subsection \<open>Label on the empty mapping\<close>

text \<open>
  Claim C10. For the empty mapping, \<^verbatim>\<open>Label.postprocess\<close> with type "confidences" or
  with type "auto" returns no wire value, whatever \<^verbatim>\<open>num_top_classes\<close> is: the sorted
  prediction list is empty and selecting its first entry raises \<^verbatim>\<open>IndexError\<close>.
\<close>

theorem Label_postprocess_empty_mapping:
  "Label_postprocess repr py \<lparr>type = ''confidences'', num_top_classes = ntc\<rparr> (PDict []) = Inl IndexError \<and>
   Label_postprocess repr py \<lparr>type = ''auto'', num_top_classes = ntc\<rparr> (PDict []) = Inl IndexError"
  by (cases ntc) (simp_all add: Label_postprocess_def sorted_itemgetter1_reverse_def slice_to_def)

subsection \<open>Stable descending sort\<close>

lemma filter_rev_sort_key_rev:
  "filter (\<lambda>p. f p = s) (rev (sort_key f (rev m))) = filter (\<lambda>p. f p = s) m"
  by (simp add: rev_filter [symmetric] sort_key_stable)

lemma sorted_desc_rev_sort_key:
  "sorted_wrt (\<lambda>a b. f b \<le> f a) (rev (sort_key f xs))"
proof -
  have "sorted (map f (sort_key f xs))" by (rule sorted_sort_key)
  then have "sorted_wrt (\<lambda>a b. f a \<le> f b) (sort_key f xs)" by (simp add: sorted_map)
  then show ?thesis by (simp add: sorted_wrt_rev)
qed

lemma stable_sorted_desc_sort:
  "stable_sorted_desc m (rev (sort_key (\<lambda>p. score (snd p)) (rev m)))"
  unfolding stable_sorted_desc_def
  using sorted_desc_rev_sort_key [of "\<lambda>p. score (snd p)" "rev m"]
    filter_rev_sort_key_rev [of "\<lambda>p. score (snd p)" _ m]
  by simp

lemma mset_eq_of_filters:
  assumes "\<And>s. filter (\<lambda>p. f p = s) ys = filter (\<lambda>p. f p = s) m"
  shows "mset ys = mset m"
proof (rule multiset_eqI)
  fix x
  have "count (mset (filter (\<lambda>p. f p = f x) ys)) x = count (mset (filter (\<lambda>p. f p = f x) m)) x"
    using assms by simp
  then show "count (mset ys) x = count (mset m) x" by simp
qed

lemma stable_sorted_desc_unique:
  assumes "stable_sorted_desc m ys"
  shows "ys = rev (sort_key (\<lambda>p. score (snd p)) (rev m))"
proof -
  let ?f = "\<lambda>p. score (snd p)"
  have fil: "\<And>s. filter (\<lambda>p. ?f p = s) ys = filter (\<lambda>p. ?f p = s) m"
    using assms by (simp add: stable_sorted_desc_def del: split_paired_All)
  have ms: "mset (rev ys) = mset (rev m)"
    using mset_eq_of_filters [of ?f ys m] fil by simp
  have srt: "sorted (map ?f (rev ys))"
    using assms by (simp add: stable_sorted_desc_def sorted_map sorted_wrt_rev del: split_paired_All)
  have st: "\<And>k. filter (\<lambda>x. ?f k = ?f x) (rev ys) = filter (\<lambda>x. ?f k = ?f x) (rev m)"
  proof -
    fix k
    have "filter (\<lambda>x. ?f k = ?f x) ys = filter (\<lambda>x. ?f k = ?f x) m"
      using fil [of "?f k"] by (simp add: eq_commute)
    then show "filter (\<lambda>x. ?f k = ?f x) (rev ys) = filter (\<lambda>x. ?f k = ?f x) (rev m)"
      by (simp add: rev_filter [symmetric])
  qed
  have "sort_key ?f (rev m) = rev ys"
    by (rule properties_for_sort_key [OF ms st srt])
  then show ?thesis by simp
qed

lemma hd_stable_sorted_desc:
  assumes st: "stable_sorted_desc m (y # ys)"
  shows "\<exists>i<length m. m ! i = y \<and>
           (\<forall>j<length m. score (snd (m ! j)) \<le> score (snd y)) \<and>
           (\<forall>j<i. score (snd (m ! j)) < score (snd y))"
proof -
  let ?f = "\<lambda>p. score (snd p)"
  let ?P = "\<lambda>p. ?f p = ?f y"
  have fil: "\<And>s. filter (\<lambda>p. ?f p = s) (y # ys) = filter (\<lambda>p. ?f p = s) m"
    using st by (simp add: stable_sorted_desc_def del: split_paired_All)
  have ms: "mset (y # ys) = mset m"
    using mset_eq_of_filters [of ?f "y # ys" m] fil by simp
  then have seteq: "set m = set (y # ys)" by (metis mset_eq_setD)
  have top: "\<forall>z \<in> set (y # ys). ?f z \<le> ?f y"
    using st by (auto simp add: stable_sorted_desc_def simp del: split_paired_All)
  have all_le: "\<forall>j<length m. ?f (m ! j) \<le> ?f y"
    using top seteq by (metis nth_mem)
  have "filter ?P m = y # filter ?P ys" using fil [of "?f y"] by simp
  then have "\<exists>us vs. m = us @ y # vs \<and> (\<forall>u\<in>set us. \<not> ?P u) \<and> ?P y \<and> filter ?P ys = filter ?P vs"
    by (simp only: filter_eq_Cons_iff)
  then obtain us vs where m_eq: "m = us @ y # vs" and us: "\<forall>u\<in>set us. \<not> ?P u"
    by blast
  have i1: "length us < length m" using m_eq by simp
  have i2: "m ! length us = y" using m_eq by simp
  have i3: "\<forall>j<length us. ?f (m ! j) < ?f y"
  proof (intro allI impI)
    fix j assume j: "j < length us"
    then have mj: "m ! j = us ! j" using m_eq by (simp add: nth_append)
    have "us ! j \<in> set us" using j by simp
    then have "?f (us ! j) \<noteq> ?f y" using us by blast
    moreover have "?f (m ! j) \<le> ?f y" using all_le j i1 by simp
    ultimately show "?f (m ! j) < ?f y" using mj by simp
  qed
  show ?thesis using i1 i2 i3 all_le by blast
qed

subsection \<open>Label on a mapping\<close>

text \<open>
  Claim C1, amended. For every non-empty mapping \<open>m\<close> from category to score, each score
  a boolean, an integer or a float other than \<^verbatim>\<open>nan\<close>,
  with \<^verbatim>\<open>num_top_classes\<close> unset or at least 1, \<^verbatim>\<open>Label.postprocess\<close> with type
  "confidences" or "auto" returns the wire value whose confidences list is the entries of
  \<open>m\<close> sorted descending by score with a stable sort, truncated to \<^verbatim>\<open>num_top_classes\<close>
  when it is set, of length \<open>min (len m) (num_top_classes or len m)\<close>, and whose label is
  the key at the first position of \<open>m\<close> that carries the maximal score.
\<close>

theorem Label_postprocess_confidences:
  assumes ty: "type self = ''confidences'' \<or> type self = ''auto''"
    and ne: "m \<noteq> []"
    and nums: "list_all (\<lambda>p. ordered_number (snd p)) m"
    and ntc: "case num_top_classes self of None \<Rightarrow> True | Some n \<Rightarrow> 1 \<le> n"
  shows "\<exists>best rest confs.
           stable_sorted_desc m (best # rest) \<and>
           confs = (case num_top_classes self of None \<Rightarrow> best # rest | Some n \<Rightarrow> take (nat n) (best # rest)) \<and>
           Label_postprocess repr py self (PDict m) =
             Inr (PDict [(PStr ''label'', fst best),
                         (PStr ''confidences'',
                          PList (map (\<lambda>p. PDict [(PStr ''label'', fst p), (PStr ''confidence'', snd p)]) confs))]) \<and>
           length confs = min (length m) (case num_top_classes self of None \<Rightarrow> length m | Some n \<Rightarrow> nat n) \<and>
           (\<exists>i<length m. fst (m ! i) = fst best \<and>
              (\<forall>j<length m. score (snd (m ! j)) \<le> score (snd (m ! i))) \<and>
              (\<forall>j<i. score (snd (m ! j)) < score (snd (m ! i))))"
proof -
  let ?full = "rev (sort_key (\<lambda>p. score (snd p)) (rev m))"
  have st: "stable_sorted_desc m ?full" by (rule stable_sorted_desc_sort)
  have len: "length ?full = length m" by simp
  then have "?full \<noteq> []" using ne by (metis length_0_conv)
  then obtain best rest where full: "?full = best # rest" by (cases ?full) auto
  define confs where
    "confs = (case num_top_classes self of None \<Rightarrow> best # rest | Some n \<Rightarrow> take (nat n) (best # rest))"
  have srt: "sorted_itemgetter1_reverse py m = Inr (best # rest)"
    using nums full by (simp add: sorted_itemgetter1_reverse_def)
  have sl: "(case num_top_classes self of None \<Rightarrow> best # rest | Some n \<Rightarrow> slice_to (best # rest) n) = confs"
    using ntc by (simp add: confs_def slice_to_def split: option.splits)
  have cne: "\<exists>cs. confs = best # cs"
  proof (cases "num_top_classes self")
    case None
    then show ?thesis by (simp add: confs_def)
  next
    case (Some n)
    then have "1 \<le> n" using ntc by simp
    then obtain k where "nat n = Suc k" by (metis Suc_nat_eq_nat_zadd1 add.commute diff_ge_0_iff_ge diff_add_cancel)
    then show ?thesis using Some by (simp add: confs_def)
  qed
  then obtain cs where cs: "confs = best # cs" by blast
  have notfirst: "\<not> (type self = ''label'' \<or> (type self = ''auto'' \<and> (isinstance_str (PDict m) \<or> isinstance_Number (PDict m))))"
    using ty by auto
  have res: "Label_postprocess repr py self (PDict m) =
             Inr (PDict [(PStr ''label'', fst best),
                         (PStr ''confidences'',
                          PList (map (\<lambda>p. PDict [(PStr ''label'', fst p), (PStr ''confidence'', snd p)]) confs))])"
    unfolding Label_postprocess_def using notfirst ty srt sl cs
    by (simp add: confidence_entry_def LABEL_KEY_def CONFIDENCE_KEY_def CONFIDENCES_KEY_def)
  have lenc: "length confs = min (length m) (case num_top_classes self of None \<Rightarrow> length m | Some n \<Rightarrow> nat n)"
    using len full by (simp add: confs_def split: option.splits)
  have st': "stable_sorted_desc m (best # rest)" using st full by simp
  from hd_stable_sorted_desc [OF st'] obtain i where
    i: "i < length m" "m ! i = best"
       "\<forall>j<length m. score (snd (m ! j)) \<le> score (snd best)"
       "\<forall>j<i. score (snd (m ! j)) < score (snd best)"
    by blast
  have idx: "\<exists>i<length m. fst (m ! i) = fst best \<and>
              (\<forall>j<length m. score (snd (m ! j)) \<le> score (snd (m ! i))) \<and>
              (\<forall>j<i. score (snd (m ! j)) < score (snd (m ! i)))"
    using i by blast
  show ?thesis
    by (rule exI [of _ best], rule exI [of _ rest], rule exI [of _ confs], intro conjI,
        rule st', rule confs_def, rule res, rule lenc, rule idx)
qed

theorem Label_postprocess_confidences_witness:
  "three_animals \<noteq> [] \<and>
   list_all (\<lambda>p. ordered_number (snd p)) three_animals \<and>
   (\<exists>best rest confs.
      stable_sorted_desc three_animals (best # rest) \<and>
      confs = take 2 (best # rest) \<and>
      Label_postprocess (\<lambda>v. []) example_py \<lparr>type = ''auto'', num_top_classes = Some 2\<rparr> (PDict three_animals) =
        Inr (PDict [(PStr ''label'', fst best),
                    (PStr ''confidences'',
                     PList (map (\<lambda>p. PDict [(PStr ''label'', fst p), (PStr ''confidence'', snd p)]) confs))]) \<and>
      length confs = 2) \<and>
   Label_postprocess (\<lambda>v. []) example_py \<lparr>type = ''auto'', num_top_classes = Some 2\<rparr> (PDict three_animals) =
     Inr (PDict [(PStr ''label'', PStr ''dog''),
                 (PStr ''confidences'',
                  PList [PDict [(PStr ''label'', PStr ''dog''), (PStr ''confidence'', PFloat (7/10))],
                         PDict [(PStr ''label'', PStr ''cat''), (PStr ''confidence'', PFloat (2/10))]])])"
proof -
  let ?self = "\<lparr>type = ''auto'', num_top_classes = Some 2\<rparr>"
  have h1: "type ?self = ''confidences'' \<or> type ?self = ''auto''" by simp
  have h2: "three_animals \<noteq> []" by (simp add: three_animals_def)
  have h3: "list_all (\<lambda>p. ordered_number (snd p)) three_animals" by (simp add: three_animals_def)
  have h4: "case num_top_classes ?self of None \<Rightarrow> True | Some n \<Rightarrow> 1 \<le> n" by simp
  have len: "length three_animals = 3" by (simp add: three_animals_def)
  have c: "\<exists>best rest confs.
      stable_sorted_desc three_animals (best # rest) \<and>
      confs = take 2 (best # rest) \<and>
      Label_postprocess (\<lambda>v. []) example_py ?self (PDict three_animals) =
        Inr (PDict [(PStr ''label'', fst best),
                    (PStr ''confidences'',
                     PList (map (\<lambda>p. PDict [(PStr ''label'', fst p), (PStr ''confidence'', snd p)]) confs))]) \<and>
      length confs = 2"
    using Label_postprocess_confidences [OF h1 h2 h3 h4, of "\<lambda>v. []" example_py] len
    by (simp del: take_Suc_Cons) blast
  have e: "Label_postprocess (\<lambda>v. []) example_py ?self (PDict three_animals) =
     Inr (PDict [(PStr ''label'', PStr ''dog''),
                 (PStr ''confidences'',
                  PList [PDict [(PStr ''label'', PStr ''dog''), (PStr ''confidence'', PFloat (7/10))],
                         PDict [(PStr ''label'', PStr ''cat''), (PStr ''confidence'', PFloat (2/10))]])])"
    by (simp add: three_animals_def Label_postprocess_def sorted_itemgetter1_reverse_def slice_to_def
        confidence_entry_def LABEL_KEY_def CONFIDENCE_KEY_def CONFIDENCES_KEY_def)
  show ?thesis using h2 h3 c e by (intro conjI)
qed

text \<open>
  The claim as first stated covers every mapping and every \<^verbatim>\<open>num_top_classes\<close>. With
  \<^verbatim>\<open>num_top_classes = 0\<close> the truncated list is empty and the call raises
  \<^verbatim>\<open>IndexError\<close> on a one-entry mapping; the empty mapping raises it too; and a negative
  \<^verbatim>\<open>num_top_classes\<close> drops entries from the end, here leaving two of three.
\<close>

theorem Label_postprocess_confidences_counterexample:
  "Label_postprocess (\<lambda>v. []) example_py \<lparr>type = ''confidences'', num_top_classes = Some 0\<rparr>
     (PDict [(PStr ''cat'', PFloat (2/10))]) = Inl IndexError \<and>
   Label_postprocess (\<lambda>v. []) example_py \<lparr>type = ''auto'', num_top_classes = None\<rparr> (PDict []) = Inl IndexError \<and>
   Label_postprocess (\<lambda>v. []) example_py \<lparr>type = ''confidences'', num_top_classes = Some (- 1)\<rparr> (PDict three_animals) =
     Inr (PDict [(PStr ''label'', PStr ''dog''),
                 (PStr ''confidences'',
                  PList [PDict [(PStr ''label'', PStr ''dog''), (PStr ''confidence'', PFloat (7/10))],
                         PDict [(PStr ''label'', PStr ''cat''), (PStr ''confidence'', PFloat (2/10))]])])"
  by (simp add: three_animals_def Label_postprocess_def sorted_itemgetter1_reverse_def slice_to_def
      confidence_entry_def LABEL_KEY_def CONFIDENCE_KEY_def CONFIDENCES_KEY_def)

subsection \<open>Dataframe on lists\<close>

text \<open>
  Claim C4. \<^verbatim>\<open>Dataframe.postprocess\<close> with type "array" or "auto" wraps a flat list
  (empty, or whose first element is not a list) as the single row of the table,
  \<^verbatim>\<open>{"data": [l]}\<close>, and returns a list whose first element is a list (a nested 2D
  list) with its nesting unchanged, \<^verbatim>\<open>{"data": l}\<close>.
\<close>

theorem Dataframe_postprocess_list:
  assumes "type self = ''array'' \<or> type self = ''auto''"
  shows "Dataframe_postprocess self (PList xs) =
           (case xs of
              [] \<Rightarrow> Inr (PDict [(PStr ''data'', PList [PList xs])])
            | x # rest \<Rightarrow>
                if isinstance_list x then Inr (PDict [(PStr ''data'', PList xs)])
                else Inr (PDict [(PStr ''data'', PList [PList xs])]))"
  using assms
  by (cases xs) (auto simp add: Dataframe_postprocess_def Dataframe_dtype_def)

theorem Dataframe_postprocess_list_witness:
  "Dataframe_postprocess \<lparr>type = ''auto'', headers = None\<rparr> (PList [PInt 1, PInt 2, PInt 3]) =
     Inr (PDict [(PStr ''data'', PList [PList [PInt 1, PInt 2, PInt 3]])]) \<and>
   Dataframe_postprocess \<lparr>type = ''array'', headers = None\<rparr> (PList [PList [PInt 1], PList [PInt 2]]) =
     Inr (PDict [(PStr ''data'', PList [PList [PInt 1], PList [PInt 2]])]) \<and>
   Dataframe_postprocess \<lparr>type = ''array'', headers = None\<rparr> (PList []) =
     Inr (PDict [(PStr ''data'', PList [PList []])])"
  using Dataframe_postprocess_list [of "\<lparr>type = ''auto'', headers = None\<rparr>" "[PInt 1, PInt 2, PInt 3]"]
    Dataframe_postprocess_list [of "\<lparr>type = ''array'', headers = None\<rparr>" "[PList [PInt 1], PList [PInt 2]]"]
    Dataframe_postprocess_list [of "\<lparr>type = ''array'', headers = None\<rparr>" "[]"]
  by simp

subsection \<open>KeyValues\<close>

text \<open>
  Claim C5, amended. \<^verbatim>\<open>KeyValues.postprocess\<close> maps a dictionary to the list of its
  (key, value) pairs in iteration order, returns a list unchanged, and fails for every
  other input with a \<^verbatim>\<open>ValueError\<close> whose message describes the expected dictionary.
\<close>

theorem KeyValues_postprocess_shapes:
  "KeyValues_postprocess (PDict d) = Inr (PList (map (\<lambda>(k, v). PTuple [k, v]) d)) \<and>
   KeyValues_postprocess (PList xs) = Inr (PList xs) \<and>
   (\<not> isinstance_dict y \<and> \<not> isinstance_list y \<longrightarrow>
      KeyValues_postprocess y = Inl (ValueError KeyValues_error_message)) \<and>
   sublist ''expects an output that is a dictionary'' KeyValues_error_message"
proof -
  have a: "\<not> isinstance_dict y \<and> \<not> isinstance_list y \<longrightarrow>
      KeyValues_postprocess y = Inl (ValueError KeyValues_error_message)"
    by (cases y) simp_all
  have b: "sublist ''expects an output that is a dictionary'' KeyValues_error_message"
    unfolding KeyValues_error_message_def
    by (simp add: sublist_code)
  show ?thesis using a b by simp
qed

theorem KeyValues_postprocess_shapes_witness:
  "KeyValues_postprocess (PDict [(PStr ''a'', PInt 1), (PStr ''b'', PInt 2)]) =
     Inr (PList [PTuple [PStr ''a'', PInt 1], PTuple [PStr ''b'', PInt 2]]) \<and>
   KeyValues_postprocess (PList [PInt 7]) = Inr (PList [PInt 7]) \<and>
   \<not> isinstance_dict (PInt 5) \<and> \<not> isinstance_list (PInt 5) \<and>
   KeyValues_postprocess (PInt 5) = Inl (ValueError KeyValues_error_message)"
  using KeyValues_postprocess_shapes [of "[(PStr ''a'', PInt 1), (PStr ''b'', PInt 2)]" "[PInt 7]" "PInt 5"]
  by simp

text \<open>
  The claim as first stated has the failure be a type error. On the number 5 the call
  raises \<^verbatim>\<open>ValueError\<close>, not \<^verbatim>\<open>TypeError\<close>, and the message speaks of the dictionary
  only: the word "list" does not occur in it.
\<close>

theorem KeyValues_postprocess_shapes_counterexample:
  "KeyValues_postprocess (PInt 5) = Inl (ValueError KeyValues_error_message) \<and>
   KeyValues_postprocess (PInt 5) \<noteq> Inl TypeError \<and>
   \<not> sublist ''list'' KeyValues_error_message"
proof -
  have "\<not> sublist ''list'' KeyValues_error_message"
    unfolding KeyValues_error_message_def by (simp add: sublist_code)
  then show ?thesis by simp
qed

subsection \<open>Values that match no shape under "auto"\<close>

lemma Label_message_names_shapes:
  "sublist ''a string label'' Label_error_message \<and>
   sublist ''an int label'' Label_error_message \<and>
   sublist ''a float label'' Label_error_message \<and>
   sublist ''a dictionary whose keys are labels and values are confidences'' Label_error_message"
  unfolding Label_error_message_def by (simp add: sublist_code)

lemma Label_postprocess_other_shape:
  assumes "\<not> isinstance_str y" "\<not> isinstance_Number y" "\<not> isinstance_dict y"
  shows "Label_postprocess repr py (self\<lparr>type := ''auto''\<rparr>) y = Inl (ValueError Label_error_message)"
  using assms by (simp add: Label_postprocess_def)

lemma Audio_postprocess_auto_not_tuple:
  assumes "\<not> isinstance_tuple y"
  shows "Audio_postprocess env tmp fs \<lparr>type = ''auto''\<rparr> y = (Audio_encode env fs y, fs)"
  using assms by (simp add: Audio_postprocess_def)

text \<open>
  Claim C3, amended. Under "auto", \<^verbatim>\<open>Label.postprocess\<close> fails on every value that is
  neither a string, a number nor a dictionary with a \<^verbatim>\<open>ValueError\<close> whose message names
  the accepted shapes (a string label, an int label, a float label, a dictionary of
  confidences). \<^verbatim>\<open>Audio.postprocess\<close> has no shape test of its own under "auto": every
  value that is not a tuple is handed to the file encoder as a path, and the result or the
  error of the call is the encoder's (the file system is left as it was).
\<close>

theorem auto_unmatched_shape:
  "(\<not> isinstance_str y \<and> \<not> isinstance_Number y \<and> \<not> isinstance_dict y \<longrightarrow>
      Label_postprocess repr py (self\<lparr>type := ''auto''\<rparr>) y = Inl (ValueError Label_error_message)) \<and>
   sublist ''a string label'' Label_error_message \<and>
   sublist ''an int label'' Label_error_message \<and>
   sublist ''a float label'' Label_error_message \<and>
   sublist ''a dictionary whose keys are labels and values are confidences'' Label_error_message \<and>
   (\<not> isinstance_tuple y \<longrightarrow>
      Audio_postprocess env tmp fs \<lparr>type = ''auto''\<rparr> y = (Audio_encode env fs y, fs))"
  using Label_message_names_shapes Label_postprocess_other_shape [of y repr py self]
    Audio_postprocess_auto_not_tuple [of y env tmp fs]
  by blast

theorem auto_unmatched_shape_witness:
  "\<not> isinstance_str PNone \<and> \<not> isinstance_Number PNone \<and> \<not> isinstance_dict PNone \<and>
   Label_postprocess (\<lambda>v. []) example_py \<lparr>type = ''auto'', num_top_classes = None\<rparr> PNone =
     Inl (ValueError Label_error_message) \<and>
   \<not> isinstance_tuple PNone \<and>
   Audio_postprocess example_env ''tmp0'' example_fs \<lparr>type = ''auto''\<rparr> PNone =
     (Audio_encode example_env example_fs PNone, example_fs)"
  using auto_unmatched_shape [of PNone "\<lambda>v. []" example_py "\<lparr>type = ''auto'', num_top_classes = None\<rparr>"
      example_env "''tmp0''" example_fs]
  by simp

text \<open>
  The claim as first stated also covers \<^verbatim>\<open>Image\<close>, \<^verbatim>\<open>Dataframe\<close> and \<^verbatim>\<open>Audio\<close>.
  On \<^verbatim>\<open>None\<close>, which matches no shape of any of them, \<^verbatim>\<open>Image\<close> and
  \<^verbatim>\<open>Dataframe\<close> raise \<^verbatim>\<open>UnboundLocalError\<close> for the variable \<^verbatim>\<open>dtype\<close>, and
  \<^verbatim>\<open>Audio\<close> passes it to the encoder, whose error is returned.
\<close>

theorem auto_unmatched_shape_counterexample:
  "Image_postprocess example_env example_fs \<lparr>type = ''auto''\<rparr> PNone = Inl (UnboundLocalError ''dtype'') \<and>
   Dataframe_postprocess \<lparr>type = ''auto'', headers = None\<rparr> PNone = Inl (UnboundLocalError ''dtype'') \<and>
   Audio_postprocess example_env ''tmp0'' example_fs \<lparr>type = ''auto''\<rparr> PNone = (Inl TypeError, example_fs)"
  by (simp add: Image_postprocess_def Image_dtype_def Dataframe_postprocess_def Dataframe_dtype_def
      Audio_postprocess_def Audio_encode_def example_env_def example_fs_def returning_str_def)

subsection \<open>"auto" against the explicit types\<close>

lemma Label_auto_scalar:
  assumes "isinstance_str y \<or> isinstance_Number y"
  shows "Label_postprocess repr py (self\<lparr>type := ''auto''\<rparr>) y = Label_postprocess repr py (self\<lparr>type := ''label''\<rparr>) y"
  using assms by (simp add: Label_postprocess_def)

lemma Label_auto_dict:
  assumes "isinstance_dict y"
  shows "Label_postprocess repr py (self\<lparr>type := ''auto''\<rparr>) y = Label_postprocess repr py (self\<lparr>type := ''confidences''\<rparr>) y"
  using assms by (cases y) (simp_all add: Label_postprocess_def split: sum.splits)

lemma Image_auto:
  "isinstance_ndarray y \<Longrightarrow> Image_dtype \<lparr>type = ''auto''\<rparr> y = Image_dtype \<lparr>type = ''numpy''\<rparr> y"
  "isinstance_PIL_Image y \<Longrightarrow> Image_dtype \<lparr>type = ''auto''\<rparr> y = Image_dtype \<lparr>type = ''pil''\<rparr> y"
  "isinstance_str y \<Longrightarrow> Image_dtype \<lparr>type = ''auto''\<rparr> y = Image_dtype \<lparr>type = ''file''\<rparr> y"
  "isinstance_ModuleType y \<Longrightarrow> Image_dtype \<lparr>type = ''auto''\<rparr> y = Image_dtype \<lparr>type = ''plot''\<rparr> y"
  by (cases y; simp add: Image_dtype_def)+

lemma Audio_auto:
  "isinstance_tuple y \<Longrightarrow>
     Audio_postprocess env tmp fs \<lparr>type = ''auto''\<rparr> y = Audio_postprocess env tmp fs \<lparr>type = ''numpy''\<rparr> y"
  "isinstance_str y \<Longrightarrow>
     Audio_postprocess env tmp fs \<lparr>type = ''auto''\<rparr> y = Audio_postprocess env tmp fs \<lparr>type = ''file''\<rparr> y"
  by (cases y; simp add: Audio_postprocess_def)+

lemma Dataframe_auto:
  "isinstance_DataFrame y \<Longrightarrow> Dataframe_dtype (df\<lparr>type := ''auto''\<rparr>) y = Some ''pandas''"
  "isinstance_ndarray y \<Longrightarrow> Dataframe_dtype (df\<lparr>type := ''auto''\<rparr>) y = Some ''numpy''"
  "isinstance_list y \<Longrightarrow> Dataframe_dtype (df\<lparr>type := ''auto''\<rparr>) y = Some ''array''"
  by (cases y; simp add: Dataframe_dtype_def)+

text \<open>
  Claim C2, amended. For \<^verbatim>\<open>Label\<close>, \<^verbatim>\<open>Image\<close>, \<^verbatim>\<open>Audio\<close> and \<^verbatim>\<open>Dataframe\<close>,
  \<^verbatim>\<open>postprocess\<close> with type "auto" on a value of each documented shape returns what
  \<^verbatim>\<open>postprocess\<close> with the corresponding explicit type returns on it (the same wire
  value, or the same error). For \<^verbatim>\<open>Textbox\<close>, "auto" returns on every value what
  type "str" returns, and that is the value itself, unchanged.
\<close>

theorem auto_equals_explicit_type:
  "(isinstance_str y \<or> isinstance_Number y \<longrightarrow>
      Label_postprocess repr py (self\<lparr>type := ''auto''\<rparr>) y = Label_postprocess repr py (self\<lparr>type := ''label''\<rparr>) y) \<and>
   (isinstance_dict y \<longrightarrow>
      Label_postprocess repr py (self\<lparr>type := ''auto''\<rparr>) y = Label_postprocess repr py (self\<lparr>type := ''confidences''\<rparr>) y) \<and>
   (isinstance_ndarray y \<longrightarrow>
      Image_postprocess env fs \<lparr>type = ''auto''\<rparr> y = Image_postprocess env fs \<lparr>type = ''numpy''\<rparr> y) \<and>
   (isinstance_PIL_Image y \<longrightarrow>
      Image_postprocess env fs \<lparr>type = ''auto''\<rparr> y = Image_postprocess env fs \<lparr>type = ''pil''\<rparr> y) \<and>
   (isinstance_str y \<longrightarrow>
      Image_postprocess env fs \<lparr>type = ''auto''\<rparr> y = Image_postprocess env fs \<lparr>type = ''file''\<rparr> y) \<and>
   (isinstance_ModuleType y \<longrightarrow>
      Image_postprocess env fs \<lparr>type = ''auto''\<rparr> y = Image_postprocess env fs \<lparr>type = ''plot''\<rparr> y) \<and>
   (isinstance_tuple y \<longrightarrow>
      Audio_postprocess env tmp fs \<lparr>type = ''auto''\<rparr> y = Audio_postprocess env tmp fs \<lparr>type = ''numpy''\<rparr> y) \<and>
   (isinstance_str y \<longrightarrow>
      Audio_postprocess env tmp fs \<lparr>type = ''auto''\<rparr> y = Audio_postprocess env tmp fs \<lparr>type = ''file''\<rparr> y) \<and>
   (isinstance_DataFrame y \<longrightarrow>
      Dataframe_postprocess (df\<lparr>type := ''auto''\<rparr>) y = Dataframe_postprocess (df\<lparr>type := ''pandas''\<rparr>) y) \<and>
   (isinstance_ndarray y \<longrightarrow>
      Dataframe_postprocess (df\<lparr>type := ''auto''\<rparr>) y = Dataframe_postprocess (df\<lparr>type := ''numpy''\<rparr>) y) \<and>
   (isinstance_list y \<longrightarrow>
      Dataframe_postprocess (df\<lparr>type := ''auto''\<rparr>) y = Dataframe_postprocess (df\<lparr>type := ''array''\<rparr>) y) \<and>
   Textbox_postprocess repr \<lparr>type = ''auto''\<rparr> y = Textbox_postprocess repr \<lparr>type = ''str''\<rparr> y \<and>
   Textbox_postprocess repr \<lparr>type = ''auto''\<rparr> y = Inr y"
proof -
  have img: "Image_dtype s1 y = Image_dtype s2 y \<Longrightarrow> Image_postprocess env fs s1 y = Image_postprocess env fs s2 y"
    for s1 s2
    by (simp add: Image_postprocess_def)
  have dfr: "Dataframe_dtype (df\<lparr>type := ''auto''\<rparr>) y = Some t \<Longrightarrow>
        Dataframe_postprocess (df\<lparr>type := ''auto''\<rparr>) y = Dataframe_postprocess (df\<lparr>type := t\<rparr>) y"
    if "t = ''pandas'' \<or> t = ''numpy'' \<or> t = ''array''" for t
    using that by (auto simp add: Dataframe_postprocess_def Dataframe_dtype_def)
  have tb: "Textbox_postprocess repr \<lparr>type = ''auto''\<rparr> y = Textbox_postprocess repr \<lparr>type = ''str''\<rparr> y"
    by (simp add: Textbox_postprocess_def)
  have tbu: "Textbox_postprocess repr \<lparr>type = ''auto''\<rparr> y = Inr y"
    by (simp add: Textbox_postprocess_def)
  show ?thesis
    using Label_auto_scalar [of y repr py self] Label_auto_dict [of y repr py self]
      img [OF Image_auto(1)] img [OF Image_auto(2)] img [OF Image_auto(3)] img [OF Image_auto(4)]
      Audio_auto [of y env tmp fs]
      dfr [OF _ Dataframe_auto(1)] dfr [OF _ Dataframe_auto(2)] dfr [OF _ Dataframe_auto(3)] tb tbu
    by (intro conjI impI) simp_all
qed

theorem auto_equals_explicit_type_witness:
  "isinstance_str (PStr ''cat'') \<and>
   Label_postprocess (\<lambda>v. []) example_py \<lparr>type = ''auto'', num_top_classes = None\<rparr> (PStr ''cat'') =
     Label_postprocess (\<lambda>v. []) example_py \<lparr>type = ''label'', num_top_classes = None\<rparr> (PStr ''cat'') \<and>
   isinstance_dict (PDict three_animals) \<and>
   Label_postprocess (\<lambda>v. []) example_py \<lparr>type = ''auto'', num_top_classes = None\<rparr> (PDict three_animals) =
     Label_postprocess (\<lambda>v. []) example_py \<lparr>type = ''confidences'', num_top_classes = None\<rparr> (PDict three_animals) \<and>
   isinstance_PIL_Image (PPilImage (PList [PInt 0])) \<and>
   Image_postprocess example_env example_fs \<lparr>type = ''auto''\<rparr> (PPilImage (PList [PInt 0])) =
     Image_postprocess example_env example_fs \<lparr>type = ''pil''\<rparr> (PPilImage (PList [PInt 0])) \<and>
   isinstance_tuple (PTuple [PInt 8000, PNdarray (PList [PInt 0])]) \<and>
   Audio_postprocess example_env ''tmp0'' example_fs \<lparr>type = ''auto''\<rparr> (PTuple [PInt 8000, PNdarray (PList [PInt 0])]) =
     Audio_postprocess example_env ''tmp0'' example_fs \<lparr>type = ''numpy''\<rparr> (PTuple [PInt 8000, PNdarray (PList [PInt 0])]) \<and>
   isinstance_list (PList [PInt 1, PInt 2, PInt 3]) \<and>
   Dataframe_postprocess \<lparr>type = ''auto'', headers = None\<rparr> (PList [PInt 1, PInt 2, PInt 3]) =
     Dataframe_postprocess \<lparr>type = ''array'', headers = None\<rparr> (PList [PInt 1, PInt 2, PInt 3]) \<and>
   Textbox_postprocess (\<lambda>v. []) \<lparr>type = ''auto''\<rparr> (PStr ''cat'') = Inr (PStr ''cat'')"
  using auto_equals_explicit_type [of "PStr ''cat''" "\<lambda>v. []" example_py "\<lparr>type = ''auto'', num_top_classes = None\<rparr>"
      example_env example_fs "''tmp0''" "\<lparr>type = ''auto'', headers = None\<rparr>"]
    auto_equals_explicit_type [of "PDict three_animals" "\<lambda>v. []" example_py "\<lparr>type = ''auto'', num_top_classes = None\<rparr>"
      example_env example_fs "''tmp0''" "\<lparr>type = ''auto'', headers = None\<rparr>"]
    auto_equals_explicit_type [of "PPilImage (PList [PInt 0])" "\<lambda>v. []" example_py "\<lparr>type = ''auto'', num_top_classes = None\<rparr>"
      example_env example_fs "''tmp0''" "\<lparr>type = ''auto'', headers = None\<rparr>"]
    auto_equals_explicit_type [of "PTuple [PInt 8000, PNdarray (PList [PInt 0])]" "\<lambda>v. []" example_py "\<lparr>type = ''auto'', num_top_classes = None\<rparr>"
      example_env example_fs "''tmp0''" "\<lparr>type = ''auto'', headers = None\<rparr>"]
    auto_equals_explicit_type [of "PList [PInt 1, PInt 2, PInt 3]" "\<lambda>v. []" example_py "\<lparr>type = ''auto'', num_top_classes = None\<rparr>"
      example_env example_fs "''tmp0''" "\<lparr>type = ''auto'', headers = None\<rparr>"]
  by (simp add: Textbox_postprocess_def)

text \<open>
  The claim as first stated has \<^verbatim>\<open>Textbox\<close> with "auto" on a number equal to type
  "number" on it. On the number 3, "auto" returns the number 3 and "number" returns the
  string "3".
\<close>

lemma char_of_digits:
  "char_of (48::nat) = CHR ''0''" "char_of (49::nat) = CHR ''1''" "char_of (50::nat) = CHR ''2''"
  "char_of (51::nat) = CHR ''3''" "char_of (52::nat) = CHR ''4''" "char_of (53::nat) = CHR ''5''"
  "char_of (54::nat) = CHR ''6''" "char_of (55::nat) = CHR ''7''" "char_of (56::nat) = CHR ''8''"
  "char_of (57::nat) = CHR ''9''"
  by code_simp+

theorem auto_equals_explicit_type_counterexample:
  "isinstance_Number (PInt 3) \<and>
   Textbox_postprocess (\<lambda>v. []) \<lparr>type = ''auto''\<rparr> (PInt 3) = Inr (PInt 3) \<and>
   Textbox_postprocess (\<lambda>v. []) \<lparr>type = ''number''\<rparr> (PInt 3) = Inr (PStr ''3'') \<and>
   Textbox_postprocess (\<lambda>v. []) \<lparr>type = ''auto''\<rparr> (PInt 3) \<noteq>
     Textbox_postprocess (\<lambda>v. []) \<lparr>type = ''number''\<rparr> (PInt 3)"
  by (simp add: Textbox_postprocess_def dec_int_def dec_nat.simps char_of_digits)

subsection \<open>An explicit type that is not a documented value\<close>

text \<open>
  Claim C6, amended. For \<^verbatim>\<open>Textbox\<close>, \<^verbatim>\<open>Label\<close>, \<^verbatim>\<open>Image\<close>, \<^verbatim>\<open>Audio\<close> and
  \<^verbatim>\<open>Dataframe\<close>, \<^verbatim>\<open>postprocess\<close> with a type string that is not one of the
  component's values fails with a \<^verbatim>\<open>ValueError\<close> on every input, never falling back to
  a default. For \<^verbatim>\<open>Textbox\<close>, \<^verbatim>\<open>Image\<close>, \<^verbatim>\<open>Audio\<close> and \<^verbatim>\<open>Dataframe\<close> the
  message names the unknown type and enumerates the valid explicit types; for \<^verbatim>\<open>Label\<close>
  the message is the one that lists the accepted value shapes.
\<close>

theorem unknown_type_fails:
  "(t \<notin> {''str'', ''auto'', ''number''} \<longrightarrow>
      Textbox_postprocess repr \<lparr>type = t\<rparr> y =
        Inl (ValueError (''Unknown type: '' @ t @ ''. Please choose from: 'str', 'number'' @ [CHR 0x27]))) \<and>
   (t \<notin> {''auto'', ''numpy'', ''pil'', ''file'', ''plot''} \<longrightarrow>
      Image_postprocess env fs \<lparr>type = t\<rparr> y =
        Inl (ValueError (''Unknown type: '' @ t @ ''. Please choose from: 'numpy', 'pil', 'file', 'plot'.''))) \<and>
   (t \<notin> {''auto'', ''numpy'', ''file''} \<longrightarrow>
      Audio_postprocess env tmp fs \<lparr>type = t\<rparr> y =
        (Inl (ValueError (''Unknown type: '' @ t @ ''. Please choose from: 'numpy', 'file'.'')), fs)) \<and>
   (t \<notin> {''auto'', ''pandas'', ''numpy'', ''array''} \<longrightarrow>
      Dataframe_postprocess (df\<lparr>type := t\<rparr>) y =
        Inl (ValueError (''Unknown type: '' @ t @ ''. Please choose from: 'pandas', 'numpy', 'array'.''))) \<and>
   (t \<notin> {''auto'', ''label'', ''confidences''} \<longrightarrow>
      Label_postprocess repr py (self\<lparr>type := t\<rparr>) y = Inl (ValueError Label_error_message))"
proof -
  have tb: "t \<notin> {''str'', ''auto'', ''number''} \<longrightarrow>
      Textbox_postprocess repr \<lparr>type = t\<rparr> y =
        Inl (ValueError (''Unknown type: '' @ t @ ''. Please choose from: 'str', 'number'' @ [CHR 0x27]))"
    by (simp add: Textbox_postprocess_def)
  have im: "t \<notin> {''auto'', ''numpy'', ''pil'', ''file'', ''plot''} \<longrightarrow>
      Image_postprocess env fs \<lparr>type = t\<rparr> y =
        Inl (ValueError (''Unknown type: '' @ t @ ''. Please choose from: 'numpy', 'pil', 'file', 'plot'.''))"
    by (simp add: Image_postprocess_def Image_dtype_def)
  have au: "t \<notin> {''auto'', ''numpy'', ''file''} \<longrightarrow>
      Audio_postprocess env tmp fs \<lparr>type = t\<rparr> y =
        (Inl (ValueError (''Unknown type: '' @ t @ ''. Please choose from: 'numpy', 'file'.'')), fs)"
    by (simp add: Audio_postprocess_def)
  have dfr: "t \<notin> {''auto'', ''pandas'', ''numpy'', ''array''} \<longrightarrow>
      Dataframe_postprocess (df\<lparr>type := t\<rparr>) y =
        Inl (ValueError (''Unknown type: '' @ t @ ''. Please choose from: 'pandas', 'numpy', 'array'.''))"
    by (simp add: Dataframe_postprocess_def Dataframe_dtype_def)
  have la: "t \<notin> {''auto'', ''label'', ''confidences''} \<longrightarrow>
      Label_postprocess repr py (self\<lparr>type := t\<rparr>) y = Inl (ValueError Label_error_message)"
    by (simp add: Label_postprocess_def)
  show ?thesis using tb im au dfr la by (intro conjI)
qed

theorem unknown_type_fails_witness:
  "''text'' \<notin> {''str'', ''auto'', ''number''} \<and>
   Textbox_postprocess (\<lambda>v. []) \<lparr>type = ''text''\<rparr> (PStr ''hi'') =
     Inl (ValueError (''Unknown type: text. Please choose from: 'str', 'number'' @ [CHR 0x27])) \<and>
   ''text'' \<notin> {''auto'', ''numpy'', ''pil'', ''file'', ''plot''} \<and>
   Image_postprocess example_env example_fs \<lparr>type = ''text''\<rparr> (PStr ''hi'') =
     Inl (ValueError ''Unknown type: text. Please choose from: 'numpy', 'pil', 'file', 'plot'.'') \<and>
   ''text'' \<notin> {''auto'', ''numpy'', ''file''} \<and>
   Audio_postprocess example_env ''tmp0'' example_fs \<lparr>type = ''text''\<rparr> (PStr ''hi'') =
     (Inl (ValueError ''Unknown type: text. Please choose from: 'numpy', 'file'.''), example_fs) \<and>
   ''text'' \<notin> {''auto'', ''pandas'', ''numpy'', ''array''} \<and>
   Dataframe_postprocess \<lparr>type = ''text'', headers = None\<rparr> (PStr ''hi'') =
     Inl (ValueError ''Unknown type: text. Please choose from: 'pandas', 'numpy', 'array'.'') \<and>
   ''text'' \<notin> {''auto'', ''label'', ''confidences''} \<and>
   Label_postprocess (\<lambda>v. []) example_py \<lparr>type = ''text'', num_top_classes = None\<rparr> (PStr ''hi'') =
     Inl (ValueError Label_error_message)"
  using unknown_type_fails [of "''text''" "\<lambda>v. []" "PStr ''hi''" example_env example_fs "''tmp0''"
      "\<lparr>type = ''text'', headers = None\<rparr>" example_py "\<lparr>type = ''text'', num_top_classes = None\<rparr>"]
  by simp

text \<open>
  The claim as first stated has every message enumerate the valid type values. The message
  of \<^verbatim>\<open>Label\<close> for the unknown type "text" mentions neither the word "type", nor the
  value "auto", nor the type that was given.
\<close>

theorem unknown_type_fails_counterexample:
  "Label_postprocess (\<lambda>v. []) example_py \<lparr>type = ''text'', num_top_classes = None\<rparr> (PStr ''hi'') =
     Inl (ValueError Label_error_message) \<and>
   \<not> sublist ''type'' Label_error_message \<and>
   \<not> sublist ''auto'' Label_error_message \<and>
   \<not> sublist ''text'' Label_error_message"
proof -
  have a: "Label_postprocess (\<lambda>v. []) example_py \<lparr>type = ''text'', num_top_classes = None\<rparr> (PStr ''hi'') =
     Inl (ValueError Label_error_message)"
    by (simp add: Label_postprocess_def)
  have b: "\<not> sublist ''type'' Label_error_message \<and>
   \<not> sublist ''auto'' Label_error_message \<and>
   \<not> sublist ''text'' Label_error_message"
    unfolding Label_error_message_def by (simp add: sublist_code)
  show ?thesis using a b by simp
qed

subsection \<open>The file name of a rebuilt image\<close>

lemma digit_value_digit_char: "digit_value (digit_char n) = Some (n mod 10)"
proof -
  have "48 + n mod 10 < 256" by simp
  then have "(of_char (char_of (48 + n mod 10)) :: nat) = 48 + n mod 10"
    by (simp only: of_char_of mod_less)
  then show ?thesis by (simp add: digit_value_def)
qed

lemma digit_char_not_slash: "digit_char n \<noteq> CHR ''/''"
proof
  assume "digit_char n = CHR ''/''"
  then have "digit_value (digit_char n) = digit_value (CHR ''/'')" by simp
  moreover have "digit_value (CHR ''/'') = None" by (simp add: digit_value_def)
  ultimately show False by (simp only: digit_value_digit_char) simp
qed

lemma decimal_value_pad2:
  assumes "n < 100"
  shows "decimal_value 0 (pad2 n) = Some n"
proof -
  have "n div 10 < 10" using assms by (simp add: div_less_iff_less_mult)
  then have "n div 10 mod 10 = n div 10" by simp
  then have e: "10 * (n div 10 mod 10) + n mod 10 = n" by simp
  have "decimal_value 0 (pad2 n) = Some (10 * (n div 10 mod 10) + n mod 10)"
    by (simp add: pad2_def digit_value_digit_char del: digit_char.simps)
  then show ?thesis using e by simp
qed

lemma decimal_value_pad4:
  assumes "n < 10000"
  shows "decimal_value 0 (pad4 n) = Some n"
proof -
  define a where "a = n div 10"
  define b where "b = a div 10"
  define c where "c = b div 10"
  have b_eq: "n div 100 = b" by (simp add: a_def b_def div_mult2_eq)
  have c_eq: "n div 1000 = c" by (simp add: a_def b_def c_def div_mult2_eq)
  have "c < 10" using assms by (simp add: c_eq [symmetric] div_less_iff_less_mult)
  then have c1: "10 * (c mod 10) + b mod 10 = b" by (simp add: c_def)
  have b1: "10 * b + a mod 10 = a" by (simp add: b_def)
  have a1: "10 * a + n mod 10 = n" by (simp add: a_def)
  have "decimal_value 0 (pad4 n) =
          Some (10 * (10 * (10 * (c mod 10) + b mod 10) + a mod 10) + n mod 10)"
    by (simp add: pad4_def digit_value_digit_char b_eq c_eq a_def [symmetric] del: digit_char.simps)
  then show ?thesis by (simp only: c1 b1 a1)
qed


lemma pad_lengths: "length (pad2 n) = 2" "length (pad4 n) = 4"
  by (simp_all add: pad2_def pad4_def)

lemma pad_no_slash: "CHR ''/'' \<notin> set (pad2 n)" "CHR ''/'' \<notin> set (pad4 n)"
  using digit_char_not_slash [of "n div 1000"] digit_char_not_slash [of "n div 100"]
    digit_char_not_slash [of "n div 10"] digit_char_not_slash [of n]
  by (auto simp add: pad2_def pad4_def simp del: digit_char.simps)

text \<open>
  Claim C7. For a directory \<open>dir\<close> that exists and a payload that decodes to an image,
  \<^verbatim>\<open>Image.rebuild(dir, data)\<close> saves the image in PNG format at \<open>dir/filename\<close>, where
  \<open>filename\<close> is \<^verbatim>\<open>output_YYYY-MM-DD-HH-MM-SS.png\<close> with the digits of the current time
  to the second (the microseconds do not enter it), and returns \<open>filename\<close> alone, which
  holds no path separator.
\<close>

theorem Image_rebuild_filename:
  assumes dec: "decode_base64_to_image env data = Inr im"
    and dir: "dir \<in> set (dirs fs)"
    and sav: "image_save env im ''PNG'' = Inr bytes"
    and clk: "clock_time now"
  shows "\<exists>Y M D h m s filename.
           filename = ''output_'' @ Y @ ''-'' @ M @ ''-'' @ D @ ''-'' @ h @ ''-'' @ m @ ''-'' @ s @ ''.png'' \<and>
           length Y = 4 \<and> length M = 2 \<and> length D = 2 \<and> length h = 2 \<and> length m = 2 \<and> length s = 2 \<and>
           decimal_value 0 Y = Some (year now) \<and> decimal_value 0 M = Some (month now) \<and>
           decimal_value 0 D = Some (day now) \<and> decimal_value 0 h = Some (hour now) \<and>
           decimal_value 0 m = Some (minute now) \<and> decimal_value 0 s = Some (second now) \<and>
           CHR ''/'' \<notin> set filename \<and>
           Image_rebuild env now fs dir data =
             (Inr filename, fs\<lparr>files := (files fs)(dir @ ''/'' @ filename \<mapsto> bytes)\<rparr>) \<and>
           fst (Image_rebuild env (now\<lparr>microsecond := u\<rparr>) fs dir data) = Inr filename"
proof -
  define Y where "Y = pad4 (year now)"
  define M where "M = pad2 (month now)"
  define D where "D = pad2 (day now)"
  define h where "h = pad2 (hour now)"
  define m where "m = pad2 (minute now)"
  define s where "s = pad2 (second now)"
  define filename where
    "filename = ''output_'' @ Y @ ''-'' @ M @ ''-'' @ D @ ''-'' @ h @ ''-'' @ m @ ''-'' @ s @ ''.png''"
  have fn: "''output_'' @ strftime_Ymd_HMS now @ ''.png'' = filename"
    by (simp add: filename_def strftime_Ymd_HMS_def Y_def M_def D_def h_def m_def s_def)
  have fnu: "''output_'' @ strftime_Ymd_HMS (now\<lparr>microsecond := u\<rparr>) @ ''.png'' = filename"
    by (simp add: filename_def strftime_Ymd_HMS_def Y_def M_def D_def h_def m_def s_def)
  have lens: "length Y = 4 \<and> length M = 2 \<and> length D = 2 \<and> length h = 2 \<and> length m = 2 \<and> length s = 2"
    by (simp add: Y_def M_def D_def h_def m_def s_def pad_lengths)
  have vals: "decimal_value 0 Y = Some (year now) \<and> decimal_value 0 M = Some (month now) \<and>
           decimal_value 0 D = Some (day now) \<and> decimal_value 0 h = Some (hour now) \<and>
           decimal_value 0 m = Some (minute now) \<and> decimal_value 0 s = Some (second now)"
    using clk unfolding clock_time_def Y_def M_def D_def h_def m_def s_def
    by (intro conjI decimal_value_pad2 decimal_value_pad4) simp_all
  have slash: "CHR ''/'' \<notin> set filename"
    using pad_no_slash by (simp add: filename_def Y_def M_def D_def h_def m_def s_def)
  have res: "Image_rebuild env now fs dir data =
             (Inr filename, fs\<lparr>files := (files fs)(dir @ ''/'' @ filename \<mapsto> bytes)\<rparr>)"
    unfolding Image_rebuild_def Let_def fn using dec dir sav by simp
  have resu: "fst (Image_rebuild env (now\<lparr>microsecond := u\<rparr>) fs dir data) = Inr filename"
    unfolding Image_rebuild_def Let_def fnu using dec dir sav by simp
  show ?thesis
    apply (rule exI [of _ Y], rule exI [of _ M], rule exI [of _ D], rule exI [of _ h])
    apply (rule exI [of _ m], rule exI [of _ s], rule exI [of _ filename])
    using filename_def lens vals slash res resu by simp
qed

theorem Image_rebuild_filename_witness:
  "decode_base64_to_image example_env (PStr ''QQ=='') = Inr (PPilImage (PStr ''QQ=='')) \<and>
   ''out'' \<in> set (dirs example_fs) \<and>
   image_save example_env (PPilImage (PStr ''QQ=='')) ''PNG'' = Inr ''image in PNG'' \<and>
   clock_time example_now \<and>
   (\<exists>filename. fst (Image_rebuild example_env example_now example_fs ''out'' (PStr ''QQ=='')) = Inr filename \<and>
      CHR ''/'' \<notin> set filename) \<and>
   fst (Image_rebuild example_env example_now example_fs ''out'' (PStr ''QQ=='')) =
     Inr ''output_2021-03-04-05-06-07.png'' \<and>
   files (snd (Image_rebuild example_env example_now example_fs ''out'' (PStr ''QQ==''))) 
     ''out/output_2021-03-04-05-06-07.png'' = Some ''image in PNG''"
proof -
  have h1: "decode_base64_to_image example_env (PStr ''QQ=='') = Inr (PPilImage (PStr ''QQ==''))"
    by (simp add: example_env_def)
  have h2: "''out'' \<in> set (dirs example_fs)" by (simp add: example_fs_def)
  have h3: "image_save example_env (PPilImage (PStr ''QQ=='')) ''PNG'' = Inr ''image in PNG''"
    by (simp add: example_env_def)
  have h4: "clock_time example_now" by (simp add: clock_time_def example_now_def)
  have c: "\<exists>filename. fst (Image_rebuild example_env example_now example_fs ''out'' (PStr ''QQ=='')) = Inr filename \<and>
      CHR ''/'' \<notin> set filename"
    using Image_rebuild_filename [OF h1 h2 h3 h4] by (metis fst_conv)
  have e: "Image_rebuild example_env example_now example_fs ''out'' (PStr ''QQ=='') =
      (Inr ''output_2021-03-04-05-06-07.png'',
       example_fs\<lparr>files := (files example_fs)(''out/output_2021-03-04-05-06-07.png'' \<mapsto> ''image in PNG'')\<rparr>)"
    by (simp add: Image_rebuild_def Let_def h1 h2 h3 strftime_Ymd_HMS_def pad2_def pad4_def example_now_def
        char_of_digits)
  show ?thesis using h1 h2 h3 h4 c e by simp
qed

subsection \<open>JSON\<close>

lemma hex_value_hex_digit: "hex_value (hex_digit k) = Some (k mod 16)"
proof (cases "k mod 16 < 10")
  case True
  then have "(of_char (char_of (48 + k mod 16)) :: nat) = 48 + k mod 16"
    by (simp only: of_char_of) simp
  then show ?thesis using True by (simp add: hex_value_def hex_digit_def)
next
  case False
  have "k mod 16 < 16" by simp
  then have "87 + k mod 16 < 256" by linarith
  then have "(of_char (char_of (87 + k mod 16)) :: nat) = 87 + k mod 16"
    by (simp only: of_char_of mod_less)
  moreover have "k mod 16 \<le> 15" using \<open>k mod 16 < 16\<close> by linarith
  ultimately show ?thesis using False by (simp add: hex_value_def hex_digit_def Let_def)
qed

lemma hex4_value_escape:
  assumes "n < 256"
  shows "hex4_value (CHR ''0'') (CHR ''0'') (hex_digit (n div 16)) (hex_digit n) = Some n"
proof -
  have z: "hex_value (CHR ''0'') = Some 0" by (simp add: hex_value_def)
  have "n div 16 < 16" using assms by (simp add: div_less_iff_less_mult)
  then have "16 * (n div 16 mod 16) + n mod 16 = n" by simp
  then show ?thesis by (simp add: hex4_value_def z hex_value_hex_digit)
qed

lemma json_unescape_escape:
  "json_unescape (json_escape c @ cs) = map_option ((#) c) (json_unescape cs)"
proof -
  have lt: "(of_char c :: nat) < 256" 
    using of_char_mod_256 [of c, where ?'a = nat] by (metis mod_less_divisor zero_less_numeral)
  consider (q) "c = CHR 0x22" | (b) "c = CHR 0x5C" | (bs) "c = CHR 0x08" | (ff) "c = CHR 0x0C"
    | (nl) "c = CHR 0x0A" | (cr) "c = CHR 0x0D" | (tab) "c = CHR 0x09"
    | (u) "c \<notin> {CHR 0x22, CHR 0x5C, CHR 0x08, CHR 0x0C, CHR 0x0A, CHR 0x0D, CHR 0x09}"
          "(of_char c :: nat) < 32 \<or> 126 < (of_char c :: nat)"
    | (plain) "c \<notin> {CHR 0x22, CHR 0x5C, CHR 0x08, CHR 0x0C, CHR 0x0A, CHR 0x0D, CHR 0x09}"
          "\<not> ((of_char c :: nat) < 32 \<or> 126 < (of_char c :: nat))"
    by blast
  then show ?thesis
  proof cases
    case u
    have "json_escape c = [CHR 0x5C, CHR ''u'', CHR ''0'', CHR ''0'', hex_digit (of_char c div 16), hex_digit (of_char c)]"
      using u by (simp add: json_escape_def)
    then show ?thesis using hex4_value_escape [OF lt] lt by simp
  next
    case plain
    then have "json_escape c = [c]" by (simp add: json_escape_def)
    then show ?thesis using plain by simp
  qed (simp_all add: json_escape_def simple_escape_def)
qed

lemma json_unescape_concat_escape:
  "json_unescape (concat (map json_escape s)) = Some s"
  by (induction s) (simp_all add: json_unescape_escape)

lemma json_loads_dumps: "json_loads_str (json_dumps_str s) = Some s"
  by (simp add: json_loads_str_def json_dumps_str_def json_unescape_concat_escape)

lemma printable_hex_digit: "printable_ascii (hex_digit k)"
proof -
  have "hex_value (hex_digit k) \<noteq> None" by (simp add: hex_value_hex_digit)
  then show ?thesis
    by (simp add: hex_value_def printable_ascii_def Let_def split: if_splits)
qed

lemma printable_json_escape: "list_all printable_ascii (json_escape c)"
  by (simp add: json_escape_def printable_hex_digit) (simp add: printable_ascii_def)

lemma printable_json_dumps_str: "list_all printable_ascii (json_dumps_str s)"
proof -
  have "list_all printable_ascii (concat (map json_escape s))"
    by (induction s) (simp_all add: printable_json_escape)
  then show ?thesis by (simp add: json_dumps_str_def) (simp add: printable_ascii_def)
qed

text \<open>
  Claim C8. \<^verbatim>\<open>JSON.postprocess\<close> returns, for a string, the string encoded as a JSON
  string literal (reading the literal back gives the string, and the literal is printable
  ASCII), and returns every input that is not a string unchanged; the function has no
  failing branch.
\<close>

theorem JSON_postprocess_string_or_passthrough:
  "JSON_postprocess (PStr s) = PStr (json_dumps_str s) \<and>
   json_loads_str (json_dumps_str s) = Some s \<and>
   list_all printable_ascii (json_dumps_str s) \<and>
   (\<not> isinstance_str y \<longrightarrow> JSON_postprocess y = y)"
proof -
  have "\<not> isinstance_str y \<longrightarrow> JSON_postprocess y = y" by (cases y) simp_all
  then show ?thesis by (simp add: json_loads_dumps printable_json_dumps_str)
qed

theorem JSON_postprocess_string_or_passthrough_witness:
  "JSON_postprocess (PStr [CHR ''a'', CHR 0x22, CHR ''b'', CHR 0x0A]) =
     PStr [CHR 0x22, CHR ''a'', CHR 0x5C, CHR 0x22, CHR ''b'', CHR 0x5C, CHR ''n'', CHR 0x22] \<and>
   \<not> isinstance_str (PDict [(PStr ''a'', PInt 1)]) \<and>
   JSON_postprocess (PDict [(PStr ''a'', PInt 1)]) = PDict [(PStr ''a'', PInt 1)]"
  using JSON_postprocess_string_or_passthrough [of "[CHR ''a'', CHR 0x22, CHR ''b'', CHR 0x0A]" "PDict [(PStr ''a'', PInt 1)]"]
  by (simp add: json_dumps_str_def json_escape_def)

subsection \<open>The temporary file of Audio\<close>




end
